theory Spec2Isabelle
  imports
    Main
    "HOL-Library.Multiset"
    "HOL-Library.Sublist"
    "HOL-Library.Char_ord"
    "HOL-Library.List_Lexorder"
begin

section \<open>The blog post manager (src/blog-post-manager/src/main.ts)\<close>

text \<open>
  The program keeps one array of posts in memory, mirrors it to one item of the
  browser's \<^verbatim>\<open>localStorage\<close> after every change, and renders a filtered and
  sorted view of it. The embedding follows the source function by function. What the
  browser supplies is an explicit input of the function that asks for it:
  \<^item> \<^verbatim>\<open>crypto.randomUUID()\<close> and \<^verbatim>\<open>new Date()\<close> are the arguments
    \<open>uuid\<close> and \<open>now\<close> of \<open>createPost\<close>;
  \<^item> the answer to \<^verbatim>\<open>confirm(...)\<close> is the argument \<open>confirmed\<close> of
    \<open>deletePost\<close>;
  \<^item> \<^verbatim>\<open>String.prototype.localeCompare\<close>, whose order depends on the
    browser's locale, is the argument \<open>localeCompare\<close> of every function that sorts.
\<close>

subsection \<open>Data\<close>

text \<open>
  A JavaScript \<^verbatim>\<open>Date\<close> holds a time value, the milliseconds since the epoch, or
  NaN (an "Invalid Date"). \<^verbatim>\<open>getTime()\<close> returns that number; a number that may
  be NaN is an \<open>int option\<close> with \<open>None\<close> for NaN.
\<close>

datatype Date = Time_value int | Invalid_Date

type_synonym number = "int option"

fun getTime :: "Date \<Rightarrow> number" where
  "getTime (Time_value t) = Some t"
| "getTime Invalid_Date = None"

text \<open>
  The interface \<^verbatim>\<open>BlogPost\<close> (lines 3-9). The field \<^verbatim>\<open>id\<close> is written
  \<open>id'\<close>, since \<open>id\<close> is the identity function of HOL. A string is a list of
  8-bit characters, read as the code units 0 to 255 (Latin-1) of a JavaScript string.
\<close>

record BlogPost =
  id' :: string
  title :: string
  author :: string
  body :: string
  timestamp :: Date

text \<open>
  What \<^verbatim>\<open>JSON.parse\<close> returns. A number is kept as a decimal mantissa and
  exponent; the program never computes with one. \<open>JIsoTime t\<close> is the string that
  \<^verbatim>\<open>Date.prototype.toISOString\<close> writes for the time value \<open>t\<close>, kept as the
  value it denotes: ECMAScript fixes that \<^verbatim>\<open>Date.parse\<close> reads that text back
  to \<open>t\<close>, and the calendar arithmetic between the two is the platform's, not the
  program's. \<open>JString\<close> is every other string. An object is the list of its
  properties in their order.
\<close>

datatype json =
    JNull
  | JBool bool
  | JNumber int int
  | JString string
  | JIsoTime int
  | JArray "json list"
  | JObject "(string \<times> json) list"

text \<open>
  The text held by the item \<^verbatim>\<open>'blogPosts'\<close>, by what the program can see of
  it: the empty string (falsy in \<^verbatim>\<open>if (stored)\<close>), a non-empty text that
  \<^verbatim>\<open>JSON.parse\<close> rejects with a SyntaxError, or a JSON text, kept as the value
  \<^verbatim>\<open>JSON.parse\<close> returns for it (\<^verbatim>\<open>JSON.stringify\<close> writes such a text,
  and a JSON text is never empty). \<^verbatim>\<open>getItem\<close> returns \<^verbatim>\<open>null\<close> when the
  item is missing: the slot is a \<open>stored_text option\<close>.
\<close>

datatype stored_text = Empty_text | Malformed_text | Json_text json

datatype button_label = Create_Post | Update_Post

text \<open>
  The module's variables \<^verbatim>\<open>posts\<close> and \<^verbatim>\<open>currentEditingId\<close> (lines 11-12),
  the storage item, the lines written by \<^verbatim>\<open>console.error\<close>, and the parts of
  the page that \<^verbatim>\<open>elements\<close> (lines 14-25) reaches: the three inputs of the form,
  the label of the submit button, whether the button \<^verbatim>\<open>#cancel-edit\<close> exists, the
  sort selector, the author filter, the cards shown in \<^verbatim>\<open>#posts-container\<close> (one
  per post, in order; \<open>createPostHTML\<close> is a function of the post) and whether
  \<^verbatim>\<open>#no-posts\<close> is displayed.
\<close>

record state =
  posts :: "BlogPost list"
  currentEditingId :: "string option"
  localStorage :: "stored_text option"
  console :: "string list"
  titleInput :: string
  authorInput :: string
  bodyInput :: string
  submitBtn :: button_label
  cancelEdit :: bool
  sortSelect :: string
  authorFilter :: string
  postsContainer :: "BlogPost list"
  noPosts :: bool

subsection \<open>Persistence (lines 42-60)\<close>

text \<open>
  \<^verbatim>\<open>JSON.stringify(posts)\<close>: an array of objects with the five properties in the
  order \<open>createPost\<close> writes them. \<^verbatim>\<open>Date.prototype.toJSON\<close> gives the ISO
  string of a valid date and \<^verbatim>\<open>null\<close> for an Invalid Date.
\<close>

fun toJSON :: "Date \<Rightarrow> json" where
  "toJSON (Time_value t) = JIsoTime t"
| "toJSON Invalid_Date = JNull"

definition stringify_post :: "BlogPost \<Rightarrow> json" where
  "stringify_post post =
     JObject [(''id'', JString (id' post)), (''title'', JString (title post)),
              (''author'', JString (author post)), (''body'', JString (body post)),
              (''timestamp'', toJSON (timestamp post))]"

definition JSON_stringify :: "BlogPost list \<Rightarrow> stored_text" where
  "JSON_stringify ps = Json_text (JArray (map stringify_post ps))"

definition saveToStorage :: "state \<Rightarrow> state" where
  "saveToStorage s = s\<lparr>localStorage := Some (JSON_stringify (posts s))\<rparr>"

subsection \<open>The store operations (lines 62-88)\<close>




text \<open>
  \<^verbatim>\<open>posts.find(p => p.id === id)\<close> returns the first post with that id, the object
  itself; \<^verbatim>\<open>Object.assign\<close> writes the three fields through that reference, so
  the array shows the change at the position of the first match.
\<close>

fun assign_found :: "string \<Rightarrow> (BlogPost \<Rightarrow> BlogPost) \<Rightarrow> BlogPost list \<Rightarrow> BlogPost list" where
  "assign_found i f [] = []"
| "assign_found i f (p # ps) = (if id' p = i then f p # ps else p # assign_found i f ps)"

definition updatePost :: "string \<Rightarrow> string \<Rightarrow> string \<Rightarrow> string \<Rightarrow> state \<Rightarrow> state" where
  "updatePost i title' author' body' s =
     (case find (\<lambda>p. id' p = i) (posts s) of
        None \<Rightarrow> s
      | Some post \<Rightarrow>
          saveToStorage
            (s\<lparr>posts :=
                 assign_found i (\<lambda>p. p\<lparr>title := title', author := author', body := body'\<rparr>)
                   (posts s)\<rparr>))"

subsection \<open>Loading (lines 46-60)\<close>

text \<open>
  How a piece of the \<^verbatim>\<open>try\<close> block ends: it returns a value, it throws (the
  \<^verbatim>\<open>catch\<close> takes over), or it meets data that this program never writes and
  whose reading rests on parts of the platform left out of the model: the unchecked
  cast of \<^verbatim>\<open>any\<close> to \<^verbatim>\<open>BlogPost\<close> for an element without the fields of a
  post, \<^verbatim>\<open>Date.parse\<close> on free text. The model stops there (\<open>Foreign\<close>) and
  no theorem speaks about such data.
\<close>

datatype 'a completion = Normal 'a | Throw | Foreign

fun JSON_parse :: "stored_text \<Rightarrow> json completion" where
  "JSON_parse (Json_text v) = Normal v"
| "JSON_parse Malformed_text = Throw"
| "JSON_parse Empty_text = Throw"

text \<open>
  \<^verbatim>\<open>new Date(post.timestamp)\<close>; \<open>None\<close> is \<^verbatim>\<open>undefined\<close>, the value of a
  property the object does not have. \<^verbatim>\<open>new Date(undefined)\<close> is an Invalid
  Date, \<^verbatim>\<open>new Date(null)\<close> is the epoch, and the ISO string of a time value is
  read back to it.
\<close>

fun new_Date :: "json option \<Rightarrow> Date completion" where
  "new_Date None = Normal Invalid_Date"
| "new_Date (Some JNull) = Normal (Time_value 0)"
| "new_Date (Some (JIsoTime t)) = Normal (Time_value t)"
| "new_Date (Some v) = Foreign"

text \<open>
  The callback of \<^verbatim>\<open>parsed.map\<close>:
  \<^verbatim>\<open>(post: any) => ({...post, timestamp: new Date(post.timestamp)})\<close>.
  On \<^verbatim>\<open>null\<close> the read of \<^verbatim>\<open>post.timestamp\<close> throws a TypeError. On an
  object with the four string fields of a post, and a timestamp or none, the spread
  copies the fields and the result is a \<open>BlogPost\<close>. Every other element is
  \<open>Foreign\<close>.
\<close>

definition post_fields ::
  "(string \<times> json) list \<Rightarrow> (string \<times> string \<times> string \<times> string \<times> json option) option" where
  "post_fields kvs =
     (case kvs of
        (k1, JString i) # (k2, JString t) # (k3, JString a) # (k4, JString b) # rest \<Rightarrow>
          if k1 = ''id'' \<and> k2 = ''title'' \<and> k3 = ''author'' \<and> k4 = ''body''
          then (case rest of
                  [] \<Rightarrow> Some (i, t, a, b, None)
                | [(k5, v)] \<Rightarrow> if k5 = ''timestamp'' then Some (i, t, a, b, Some v) else None
                | _ \<Rightarrow> None)
          else None
      | _ \<Rightarrow> None)"

fun callback :: "json \<Rightarrow> BlogPost completion" where
  "callback JNull = Throw"
| "callback (JObject kvs) =
     (case post_fields kvs of
        None \<Rightarrow> Foreign
      | Some (i, t, a, b, ts) \<Rightarrow>
          (case new_Date ts of
             Normal d \<Rightarrow> Normal \<lparr>id' = i, title = t, author = a, body = b, timestamp = d\<rparr>
           | Throw \<Rightarrow> Throw
           | Foreign \<Rightarrow> Foreign))"
| "callback v = Foreign"

text \<open>
  \<^verbatim>\<open>Array.prototype.map\<close> with that callback, element by element. The callback has
  no effect but its result, and it returns or throws on a \<open>Foreign\<close> element: either
  way a later \<^verbatim>\<open>null\<close> ends the whole call in the \<^verbatim>\<open>catch\<close>.
\<close>

fun Array_map :: "json list \<Rightarrow> BlogPost list completion" where
  "Array_map [] = Normal []"
| "Array_map (e # es) =
     (case callback e of
        Throw \<Rightarrow> Throw
      | Foreign \<Rightarrow> (case Array_map es of Throw \<Rightarrow> Throw | _ \<Rightarrow> Foreign)
      | Normal p \<Rightarrow>
          (case Array_map es of
             Throw \<Rightarrow> Throw
           | Foreign \<Rightarrow> Foreign
           | Normal ps \<Rightarrow> Normal (p # ps)))"

text \<open>
  The body of the \<^verbatim>\<open>try\<close>. Only an array has a method \<^verbatim>\<open>map\<close>: on
  \<^verbatim>\<open>null\<close> the property read throws, and on a boolean, number, string or object
  \<^verbatim>\<open>parsed.map\<close> is not a function (a JSON value holds no function), so the
  call throws a TypeError.
\<close>

definition try_block :: "stored_text \<Rightarrow> BlogPost list completion" where
  "try_block stored =
     (case JSON_parse stored of
        Normal (JArray es) \<Rightarrow> Array_map es
      | Normal v \<Rightarrow> Throw
      | Throw \<Rightarrow> Throw
      | Foreign \<Rightarrow> Foreign)"

fun truthy :: "stored_text \<Rightarrow> bool" where
  "truthy Empty_text = False"
| "truthy Malformed_text = True"
| "truthy (Json_text v) = True"

definition loadFromStorage :: "state \<Rightarrow> state completion" where
  "loadFromStorage s =
     (case localStorage s of
        None \<Rightarrow> Normal s
      | Some stored \<Rightarrow>
          if truthy stored
          then (case try_block stored of
                  Normal ps \<Rightarrow> Normal (s\<lparr>posts := ps\<rparr>)
                | Throw \<Rightarrow>
                    Normal (s\<lparr>console := console s @ [''Error loading posts:''],
                              posts := []\<rparr>)
                | Foreign \<Rightarrow> Foreign)
          else Normal s)"

subsection \<open>The form (lines 90-124)\<close>




subsection \<open>The list operation (lines 126-139)\<close>

text \<open>
  \<^verbatim>\<open>String.prototype.toLowerCase\<close> on the code units 0 to 255: the letters A-Z
  and the Latin-1 capitals (192 to 222, but not the multiplication sign 215) move up
  by 32, every other unit stays.
\<close>

definition toLowerCase_unit :: "char \<Rightarrow> char" where
  "toLowerCase_unit c =
     (let n = (of_char c :: nat)
      in if (65 \<le> n \<and> n \<le> 90) \<or> (192 \<le> n \<and> n \<le> 222 \<and> n \<noteq> 215)
         then char_of (n + 32) else c)"

definition toLowerCase :: "string \<Rightarrow> string" where
  "toLowerCase s = map toLowerCase_unit s"

text \<open>
  \<^verbatim>\<open>s.includes(t)\<close>: \<open>t\<close> starts at some position of \<open>s\<close>.
\<close>

fun String_includes :: "string \<Rightarrow> string \<Rightarrow> bool" where
  "String_includes [] t = (t = [])"
| "String_includes (c # cs) t = (prefix t (c # cs) \<or> String_includes cs t)"

text \<open>
  \<^verbatim>\<open>Array.prototype.sort(comparefn)\<close>. ECMAScript reads a NaN from the comparator
  as 0, puts \<open>x\<close> before \<open>y\<close> when the comparator is negative, and requires the
  sort to be stable; for a consistent comparator that fixes the result, which is
  computed here by insertion from the right. For an inconsistent comparator the order
  is implementation-defined, and insertion is one such implementation.
\<close>

definition SortCompare :: "('a \<Rightarrow> 'a \<Rightarrow> number) \<Rightarrow> 'a \<Rightarrow> 'a \<Rightarrow> int" where
  "SortCompare comparefn x y = (case comparefn x y of None \<Rightarrow> 0 | Some v \<Rightarrow> v)"

fun insert_stable :: "('a \<Rightarrow> 'a \<Rightarrow> number) \<Rightarrow> 'a \<Rightarrow> 'a list \<Rightarrow> 'a list" where
  "insert_stable comparefn x [] = [x]"
| "insert_stable comparefn x (y # ys) =
     (if SortCompare comparefn x y \<le> 0 then x # y # ys
      else y # insert_stable comparefn x ys)"

definition Array_sort :: "('a \<Rightarrow> 'a \<Rightarrow> number) \<Rightarrow> 'a list \<Rightarrow> 'a list" where
  "Array_sort comparefn xs = foldr (insert_stable comparefn) xs []"

fun minus_number :: "number \<Rightarrow> number \<Rightarrow> number" where
  "minus_number (Some a) (Some b) = Some (a - b)"
| "minus_number a b = None"

text \<open>
  The comparator of line 134-138 and the predicate of line 131.
\<close>

definition comparator ::
  "(string \<Rightarrow> string \<Rightarrow> int) \<Rightarrow> string \<Rightarrow> BlogPost \<Rightarrow> BlogPost \<Rightarrow> number" where
  "comparator localeCompare sortBy a b =
     (if sortBy = ''author''
      then Some (localeCompare (author a) (author b))
      else minus_number (getTime (timestamp b)) (getTime (timestamp a)))"

definition getFilteredAndSortedPosts ::
  "(string \<Rightarrow> string \<Rightarrow> int) \<Rightarrow> state \<Rightarrow> BlogPost list" where
  "getFilteredAndSortedPosts localeCompare s =
     (let filterText = toLowerCase (authorFilter s);
          sortBy = sortSelect s;
          filtered =
            (if filterText \<noteq> []
             then filter (\<lambda>post. String_includes (toLowerCase (author post)) filterText)
                    (posts s)
             else posts s)
      in Array_sort (comparator localeCompare sortBy) filtered)"

text \<open>
  The same function with the arrays as the program has them: values on a heap, named
  by references. \<^verbatim>\<open>filter\<close> and the spread \<^verbatim>\<open>[...posts]\<close> allocate a new
  array; \<^verbatim>\<open>sort\<close> sorts the array it is called on in place and returns that same
  array. A reference is an index into the heap, and a new array goes to its end.
\<close>

type_synonym ref = nat

type_synonym heap = "BlogPost list list"

definition Array_alloc :: "BlogPost list \<Rightarrow> heap \<Rightarrow> ref \<times> heap" where
  "Array_alloc xs h = (length h, h @ [xs])"

definition filter_heap :: "(BlogPost \<Rightarrow> bool) \<Rightarrow> ref \<Rightarrow> heap \<Rightarrow> ref \<times> heap" where
  "filter_heap P r h = Array_alloc (filter P (h ! r)) h"

definition spread_heap :: "ref \<Rightarrow> heap \<Rightarrow> ref \<times> heap" where
  "spread_heap r h = Array_alloc (h ! r) h"

definition sort_heap :: "(BlogPost \<Rightarrow> BlogPost \<Rightarrow> number) \<Rightarrow> ref \<Rightarrow> heap \<Rightarrow> ref \<times> heap" where
  "sort_heap comparefn r h = (r, h[r := Array_sort comparefn (h ! r)])"

definition getFilteredAndSortedPosts_heap ::
  "(string \<Rightarrow> string \<Rightarrow> int) \<Rightarrow> string \<Rightarrow> string \<Rightarrow> ref \<Rightarrow> heap \<Rightarrow> ref \<times> heap" where
  "getFilteredAndSortedPosts_heap localeCompare authorFilter' sortSelect' posts' h =
     (let filterText = toLowerCase authorFilter';
          sortBy = sortSelect';
          (filtered, h1) =
            (if filterText \<noteq> []
             then filter_heap (\<lambda>post. String_includes (toLowerCase (author post)) filterText)
                    posts' h
             else spread_heap posts' h)
      in sort_heap (comparator localeCompare sortBy) filtered h1)"

subsection \<open>Rendering and the event handlers (lines 164-214)\<close>

definition renderPosts :: "(string \<Rightarrow> string \<Rightarrow> int) \<Rightarrow> state \<Rightarrow> state" where
  "renderPosts localeCompare s =
     (let filteredPosts = getFilteredAndSortedPosts localeCompare s
      in if length filteredPosts = 0
         then s\<lparr>postsContainer := [], noPosts := True\<rparr>
         else s\<lparr>noPosts := False, postsContainer := filteredPosts\<rparr>)"

definition deletePost :: "(string \<Rightarrow> string \<Rightarrow> int) \<Rightarrow> bool \<Rightarrow> string \<Rightarrow> state \<Rightarrow> state" where
  "deletePost localeCompare confirmed i s =
     (if confirmed
      then renderPosts localeCompare
             (saveToStorage (s\<lparr>posts := filter (\<lambda>post. id' post \<noteq> i) (posts s)\<rparr>))
      else s)"


definition clearFilter :: "(string \<Rightarrow> string \<Rightarrow> int) \<Rightarrow> state \<Rightarrow> state" where
  "clearFilter localeCompare s = renderPosts localeCompare (s\<lparr>authorFilter := []\<rparr>)"

definition init :: "(string \<Rightarrow> string \<Rightarrow> int) \<Rightarrow> state \<Rightarrow> state completion" where
  "init localeCompare s =
     (case loadFromStorage s of
        Normal s1 \<Rightarrow> Normal (renderPosts localeCompare s1)
      | Throw \<Rightarrow> Throw
      | Foreign \<Rightarrow> Foreign)"

text \<open>
  A collation for the worked examples: the order of the code units. The theorems hold
  for every \<open>localeCompare\<close> that is a consistent comparator.
\<close>

definition code_unit_order :: "string \<Rightarrow> string \<Rightarrow> int" where
  "code_unit_order a b = (if a < b then - 1 else if a = b then 0 else 1)"

text \<open>
  The state the worked examples start from: \<^verbatim>\<open>posts\<close> and
  \<^verbatim>\<open>currentEditingId\<close> as lines 11-12 declare them, nothing stored, nothing
  logged, an empty form and an empty page.
\<close>

definition start :: state where
  "start =
     \<lparr>posts = [], currentEditingId = None, localStorage = None, console = [],
      titleInput = [], authorInput = [], bodyInput = [], submitBtn = Create_Post,
      cancelEdit = False, sortSelect = ''date'', authorFilter = [], postsContainer = [],
      noPosts = False\<rparr>"

subsection \<open>Notions of the claims and worked examples\<close>





definition bob_and_ann :: "BlogPost list" where
  "bob_and_ann =
     [\<lparr>id' = ''b'', title = ''B'', author = ''Ann'', body = ''y'', timestamp = Time_value 2\<rparr>,
      \<lparr>id' = ''c'', title = ''C'', author = ''Cy'', body = ''z'', timestamp = Time_value 3\<rparr>,
      \<lparr>id' = ''a'', title = ''A'', author = ''Bob'', body = ''x'', timestamp = Time_value 1\<rparr>]"


definition empty_id_post :: BlogPost where
  "empty_id_post =
     \<lparr>id' = [], title = ''A'', author = ''Bob'', body = ''x'', timestamp = Time_value 1\<rparr>"


section \<open>Properties\<close>

lemma posts_saveToStorage: "posts (saveToStorage s) = posts s"
  by (simp add: saveToStorage_def)

lemma localStorage_saveToStorage:
  "localStorage (saveToStorage s) = Some (JSON_stringify (posts s))"
  by (simp add: saveToStorage_def)



subsection \<open>C1: createPost\<close>



subsection \<open>Finding, assigning, filtering\<close>


lemma find_no_match:
  "i \<notin> set (map id' ps) \<Longrightarrow> find (\<lambda>p. id' p = i) ps = None"
  by (induction ps) auto


lemma posts_renderPosts: "posts (renderPosts L s) = posts s"
  by (simp add: renderPosts_def Let_def)

lemma localStorage_renderPosts: "localStorage (renderPosts L s) = localStorage s"
  by (simp add: renderPosts_def Let_def)

lemma console_renderPosts: "console (renderPosts L s) = console s"
  by (simp add: renderPosts_def Let_def)

lemma currentEditingId_renderPosts: "currentEditingId (renderPosts L s) = currentEditingId s"
  by (simp add: renderPosts_def Let_def)

lemma filter_no_match:
  "i \<notin> set (map id' ps) \<Longrightarrow> filter (\<lambda>post. id' post \<noteq> i) ps = ps"
  by (induction ps) auto


subsection \<open>C2: updatePost on an id of the list\<close>



subsection \<open>C3: an id that matches no post\<close>

text \<open>
  C3. For an id that no post of the list has, \<open>updatePost\<close> changes nothing at all,
  and \<open>deletePost\<close>, confirmed, leaves the list of posts as it was, writes that
  same list to the storage and logs no error; declined, it changes nothing.
\<close>

theorem unknown_id_noop:
  assumes "i \<notin> set (map id' (posts s))"
  shows "updatePost i t a b s = s
    \<and> posts (deletePost L True i s) = posts s
    \<and> localStorage (deletePost L True i s) = Some (JSON_stringify (posts s))
    \<and> console (deletePost L True i s) = console s
    \<and> deletePost L False i s = s"
proof -
  have "find (\<lambda>p. id' p = i) (posts s) = None"
    using assms by (rule find_no_match)
  then have upd: "updatePost i t a b s = s"
    by (simp add: updatePost_def)
  have "filter (\<lambda>post. id' post \<noteq> i) (posts s) = posts s"
    using assms by (rule filter_no_match)
  then have del: "posts (deletePost L True i s) = posts s"
    by (simp add: deletePost_def posts_renderPosts posts_saveToStorage)
  have log: "console (deletePost L True i s) = console s"
    by (simp add: deletePost_def console_renderPosts saveToStorage_def)
  have stored: "localStorage (deletePost L True i s) = Some (JSON_stringify (posts s))"
    using \<open>filter (\<lambda>post. id' post \<noteq> i) (posts s) = posts s\<close>
    by (simp add: deletePost_def localStorage_renderPosts saveToStorage_def)
  show ?thesis
    using upd del log stored by (simp add: deletePost_def)
qed

theorem unknown_id_noop_witness:
  "updatePost ''zz'' ''T'' ''Al'' ''B''
       (start\<lparr>posts := [\<lparr>id' = ''a'', title = ''First'', author = ''Bob'', body = ''x'', timestamp = Time_value 1\<rparr>]\<rparr>) =
     start\<lparr>posts := [\<lparr>id' = ''a'', title = ''First'', author = ''Bob'', body = ''x'', timestamp = Time_value 1\<rparr>]\<rparr>
   \<and> posts (deletePost code_unit_order True ''zz''
       (start\<lparr>posts := [\<lparr>id' = ''a'', title = ''First'', author = ''Bob'', body = ''x'', timestamp = Time_value 1\<rparr>]\<rparr>)) =
     [\<lparr>id' = ''a'', title = ''First'', author = ''Bob'', body = ''x'', timestamp = Time_value 1\<rparr>]"
  using unknown_id_noop [of "''zz''"
      "start\<lparr>posts := [\<lparr>id' = ''a'', title = ''First'', author = ''Bob'', body = ''x'', timestamp = Time_value 1\<rparr>]\<rparr>"
      "''T''" "''Al''" "''B''" code_unit_order]
  by simp

subsection \<open>C4: deletePost on an id of the list\<close>



subsection \<open>Strings and sorting\<close>


















subsection \<open>C5: the filter of the list operation\<close>



subsection \<open>C6: the order of the list operation\<close>




subsection \<open>C7: the list operation leaves the list alone\<close>

text \<open>
  C7. With the arrays on a heap: when \<^verbatim>\<open>posts\<close> refers to an array of the heap,
  the list operation leaves that array as it was, the same posts in the same order, and
  every other array that existed; the array it returns is a new one, and holds what the
  value-level function computes. \<open>renderPosts\<close>, which calls it, leaves the list
  and the stored snapshot as they were.
\<close>

theorem list_leaves_posts:
  assumes "posts' < length h"
    and "getFilteredAndSortedPosts_heap L f k posts' h = (r, h')"
  shows "h' ! posts' = h ! posts'
    \<and> take (length h) h' = h
    \<and> r \<noteq> posts'
    \<and> h' ! r = getFilteredAndSortedPosts L (s\<lparr>posts := h ! posts', authorFilter := f, sortSelect := k\<rparr>)
    \<and> posts (renderPosts L s) = posts s
    \<and> localStorage (renderPosts L s) = localStorage s"
proof -
  let ?P = "\<lambda>post. String_includes (toLowerCase (author post)) (toLowerCase f)"
  let ?xs = "if toLowerCase f \<noteq> [] then filter ?P (h ! posts') else h ! posts'"
  let ?c = "comparator L k"
  have alloc: "(if toLowerCase f \<noteq> [] then filter_heap ?P posts' h else spread_heap posts' h) =
      (length h, h @ [?xs])"
    by (simp add: filter_heap_def spread_heap_def Array_alloc_def)
  have run: "getFilteredAndSortedPosts_heap L f k posts' h =
      (length h, (h @ [?xs])[length h := Array_sort ?c ?xs])"
    unfolding getFilteredAndSortedPosts_heap_def Let_def alloc
    by (simp add: sort_heap_def)
  then have r: "r = length h" and h': "h' = h @ [Array_sort ?c ?xs]"
    using assms(2) by simp_all
  have same: "h' ! posts' = h ! posts'"
    using assms(1) by (simp add: h' nth_append)
  have old: "take (length h) h' = h"
    by (simp add: h')
  have fresh: "r \<noteq> posts'"
    using assms(1) r by simp
  have result: "h' ! r =
      getFilteredAndSortedPosts L (s\<lparr>posts := h ! posts', authorFilter := f, sortSelect := k\<rparr>)"
    by (simp add: r h' getFilteredAndSortedPosts_def Let_def)
  show ?thesis
    using same old fresh result by (simp add: posts_renderPosts localStorage_renderPosts)
qed

theorem list_leaves_posts_witness:
  "getFilteredAndSortedPosts_heap code_unit_order [] ''author'' 0 [bob_and_ann] =
     (1, [bob_and_ann,
          [\<lparr>id' = ''b'', title = ''B'', author = ''Ann'', body = ''y'', timestamp = Time_value 2\<rparr>,
           \<lparr>id' = ''a'', title = ''A'', author = ''Bob'', body = ''x'', timestamp = Time_value 1\<rparr>,
           \<lparr>id' = ''c'', title = ''C'', author = ''Cy'', body = ''z'', timestamp = Time_value 3\<rparr>]])
   \<and> [bob_and_ann,
          [\<lparr>id' = ''b'', title = ''B'', author = ''Ann'', body = ''y'', timestamp = Time_value 2\<rparr>,
           \<lparr>id' = ''a'', title = ''A'', author = ''Bob'', body = ''x'', timestamp = Time_value 1\<rparr>,
           \<lparr>id' = ''c'', title = ''C'', author = ''Cy'', body = ''z'', timestamp = Time_value 3\<rparr>]] ! 0 =
       [bob_and_ann] ! 0"
proof -
  have run: "getFilteredAndSortedPosts_heap code_unit_order [] ''author'' 0 [bob_and_ann] =
     (1, [bob_and_ann,
          [\<lparr>id' = ''b'', title = ''B'', author = ''Ann'', body = ''y'', timestamp = Time_value 2\<rparr>,
           \<lparr>id' = ''a'', title = ''A'', author = ''Bob'', body = ''x'', timestamp = Time_value 1\<rparr>,
           \<lparr>id' = ''c'', title = ''C'', author = ''Cy'', body = ''z'', timestamp = Time_value 3\<rparr>]])"
    by code_simp
  have allocated: "0 < length [bob_and_ann]"
    by simp
  show ?thesis
    using list_leaves_posts [OF allocated run, of start] run by simp
qed

subsection \<open>C8: saving, then loading\<close>








lemma load_without_timestamp:
  "loadFromStorage
     (start\<lparr>localStorage := Some (Json_text (JArray
        [JObject [(''id'', JString ''x''), (''title'', JString ''X''),
                  (''author'', JString ''Cy''), (''body'', JString ''z'')]]))\<rparr>) =
   Normal (start\<lparr>localStorage := Some (Json_text (JArray
        [JObject [(''id'', JString ''x''), (''title'', JString ''X''),
                  (''author'', JString ''Cy''), (''body'', JString ''z'')]])),
      posts := [\<lparr>id' = ''x'', title = ''X'', author = ''Cy'', body = ''z'', timestamp = Invalid_Date\<rparr>]\<rparr>)"
  by (simp add: loadFromStorage_def try_block_def post_fields_def start_def)

subsection \<open>C9: loading what cannot be read\<close>





subsection \<open>C10: submitting an edit of a post that is gone\<close>







text \<open>A post with the empty id gets into the list by loading a stored post that has it.\<close>

lemma load_empty_id:
  "loadFromStorage
     (start\<lparr>localStorage := Some (Json_text (JArray
        [JObject [(''id'', JString []), (''title'', JString ''A''),
                  (''author'', JString ''Bob''), (''body'', JString ''x''),
                  (''timestamp'', JIsoTime 1)]]))\<rparr>) =
   Normal (start\<lparr>localStorage := Some (Json_text (JArray
        [JObject [(''id'', JString []), (''title'', JString ''A''),
                  (''author'', JString ''Bob''), (''body'', JString ''x''),
                  (''timestamp'', JIsoTime 1)]])),
      posts := [empty_id_post]\<rparr>)"
  by (simp add: loadFromStorage_def try_block_def post_fields_def start_def empty_id_post_def)

end
